theory Spec2Isabelle
  imports Main
begin

section \<open>Values and errors\<close>

text \<open>
  JSON documents as Python decodes them. A dict is an association list in insertion
  order. A float is kept as mantissa and binary exponent; only its type name is ever read.
\<close>

datatype json =
    JNull
  | JBool bool
  | JInt int
  | JFloat int int
  | JStr string
  | JList "json list"
  | JDict "(string \<times> json) list"

type_synonym dict = "(string \<times> json) list"

text \<open>\<^verbatim>\<open>type(value).__name__\<close> of a decoded JSON value.\<close>

fun type_name :: "json \<Rightarrow> string" where
  "type_name JNull = ''NoneType''"
| "type_name (JBool b) = ''bool''"
| "type_name (JInt i) = ''int''"
| "type_name (JFloat m e) = ''float''"
| "type_name (JStr s) = ''str''"
| "type_name (JList xs) = ''list''"
| "type_name (JDict d) = ''dict''"

text \<open>\<^verbatim>\<open>d[k]\<close> and \<^verbatim>\<open>d[k] = v\<close> on a dict: a read of a missing key is \<open>None\<close> here and
  a KeyError where it is used; a write replaces the value of an existing key in place and
  appends a new key at the end.\<close>

fun dict_get :: "dict \<Rightarrow> string \<Rightarrow> json option" where
  "dict_get [] k = None"
| "dict_get ((k', v) # d) k = (if k' = k then Some v else dict_get d k)"

fun dict_set :: "dict \<Rightarrow> string \<Rightarrow> json \<Rightarrow> dict" where
  "dict_set [] k v = [(k, v)]"
| "dict_set ((k', v') # d) k v = (if k' = k then (k, v) # d else (k', v') # dict_set d k v)"

datatype path_item = PathKey string | PathIndex int

text \<open>Modelled from the spec: the class \<^verbatim>\<open>Error\<close> of \<^verbatim>\<open>classes/gql/Error\<close> is not among the
  sources. Errors.py reads one attribute of it, \<^verbatim>\<open>recoverable\<close>; the spec calls it the
  error's own field.\<close>

record Error =
  recoverable :: bool

datatype 'e ExceptionContext =
  ExceptionContext (exception: 'e) (stack_trace: "string option")

text \<open>
  The exceptions (subclasses of \<^verbatim>\<open>Exception\<close>) that the code raises, catches or classifies:
  \<^item> \<open>RequestException\<close>: any \<^verbatim>\<open>requests.exceptions.RequestException\<close>, with its message;
  \<^item> the three subclasses of \<^verbatim>\<open>GQLError\<close> of Errors.py;
  \<^item> \<open>OtherException\<close>: an exception of any other class, with the class name.
\<close>

datatype exn =
    RequestException string
  | GQLResponseErrors string "Error list"
  | InvalidJsonShapeException "path_item list" string
  | RetryError json "exn ExceptionContext list"
  | OtherException string

fun isinstance_RequestException :: "exn \<Rightarrow> bool" where
  "isinstance_RequestException (RequestException m) = True"
| "isinstance_RequestException e = False"

fun isinstance_GQLError :: "exn \<Rightarrow> bool" where
  "isinstance_GQLError (GQLResponseErrors n es) = True"
| "isinstance_GQLError (InvalidJsonShapeException p m) = True"
| "isinstance_GQLError (RetryError n es) = True"
| "isinstance_GQLError e = False"

text \<open>Python's \<^verbatim>\<open>all\<close> over the values of a generator: it stops at the first false one.\<close>

fun py_all :: "bool list \<Rightarrow> bool" where
  "py_all [] = True"
| "py_all (b # bs) = (if \<not> b then False else py_all bs)"

text \<open>The method \<^verbatim>\<open>recoverable()\<close>: \<^verbatim>\<open>GQLResponseErrors\<close> and
  \<^verbatim>\<open>InvalidJsonShapeException\<close> override it, \<^verbatim>\<open>RetryError\<close> inherits the one of \<^verbatim>\<open>GQLError\<close>,
  which returns False. Exceptions of other classes have no such method.\<close>

fun GQLError_recoverable :: "exn \<Rightarrow> bool" where
  "GQLError_recoverable (GQLResponseErrors n es) = py_all (map recoverable es)"
| "GQLError_recoverable (InvalidJsonShapeException p m) = False"
| "GQLError_recoverable e = False"

section \<open>The state of a run\<close>

text \<open>
  The request templates are attributes of \<^verbatim>\<open>GQLOperations\<close>, module-level dicts
  shared by every call. A reference is either to one of them or to an object that
  \<^verbatim>\<open>copy.deepcopy\<close> made.
\<close>

datatype operation =
    VideoPlayerStreamInfoOverlayChannel
  | GetIDFromLogin
  | ChannelFollows
  | JoinRaid
  | PlaybackAccessToken
  | ChannelPointsContext
  | MakePrediction
  | ClaimCommunityPoints
  | CommunityMomentCallout_Claim
  | DropsHighlightService_AvailableDrops
  | Inventory
  | ViewerDropsDashboard
  | DropCampaignDetails
  | DropsPage_ClaimDropRewards
  | UserPointsContribution
  | ContributeCommunityPointsCommunityGoal

datatype ref = Template operation | Copy nat

text \<open>\<^verbatim>\<open>request_json: dict | list\<close>: a dict, or a list of dicts, by reference.\<close>

datatype request = ReqDict ref | ReqList "ref list"

text \<open>What \<^verbatim>\<open>requests.Response\<close> gives: two attributes and the outcomes of its two methods
  (\<open>Some e\<close>: \<^verbatim>\<open>raise_for_status()\<close> raises \<open>e\<close>).\<close>

record Response =
  status_code :: int
  response_text :: string
  raise_for_status :: "exn option"
  json :: "exn + json"

text \<open>One constructor for each call of the logger.\<close>

datatype log_record =
    LogCannotRetry exn
  | LogData json int string
  | LogUnable json nat
  | LogSucceeded json nat "exn ExceptionContext list"
  | LogUnableFollowers
  | LogSkippingChunk

text \<open>What a run does to the outside, in order: \<open>AttemptCalled\<close> when \<^verbatim>\<open>make_attempts\<close>
  calls \<^verbatim>\<open>attempt\<close>, \<open>Slept\<close> for \<^verbatim>\<open>time.sleep\<close>, \<open>Posted\<close> for a call of the transport with
  the object it was given and that object's content, \<open>TokenHex\<close> for a token drawn from
  \<^verbatim>\<open>secrets.token_hex\<close>.\<close>

datatype event =
    AttemptCalled
  | Slept int
  | Posted request json
  | TokenHex string
  | Logged log_record

text \<open>\<open>world\<close> is everything outside the program (the server, the network, the entropy
  source); callbacks and the transport read and change it.\<close>

record 'w state =
  world :: 'w
  GQLOperations :: "operation \<Rightarrow> dict"
  copies :: "nat \<Rightarrow> dict"
  next_copy :: nat
  trace :: "event list"

definition emit :: "event \<Rightarrow> 'w state \<Rightarrow> 'w state" where
  "emit ev s = s\<lparr>trace := trace s @ [ev]\<rparr>"

text \<open>A callable that touches the outside world only.\<close>

definition on_world :: "('w \<Rightarrow> 'a \<times> 'w) \<Rightarrow> 'w state \<Rightarrow> 'a \<times> 'w state" where
  "on_world f s = (case f (world s) of (a, w) \<Rightarrow> (a, s\<lparr>world := w\<rparr>))"

section \<open>AttemptStrategy.py\<close>

datatype 'r attempt_result =
    SuccessResult (errors: "exn ExceptionContext list") (result: 'r)
  | ErrorResult (errors: "exn ExceptionContext list")

text \<open>The property \<^verbatim>\<open>attempts\<close> of the two result classes.\<close>

fun result_attempts :: "'r attempt_result \<Rightarrow> nat" where
  "result_attempts (SuccessResult es r) = length es + 1"
| "result_attempts (ErrorResult es) = length es"

record AttemptStrategy =
  attempts :: int
  attempt_interval_seconds :: int

text \<open>\<^verbatim>\<open>time.sleep\<close> with a whole number of seconds. It keeps time in nanoseconds, in a
  signed 64-bit integer: a number of seconds that does not fit (above 9223372036, or below
  -9223372036) raises OverflowError; a negative one that fits raises ValueError.\<close>

definition time_sleep :: "int \<Rightarrow> 'w state \<Rightarrow> exn option \<times> 'w state" where
  "time_sleep secs s =
     (if secs * 1000000000 < - 9223372036854775808 \<or> 9223372036854775807 < secs * 1000000000
      then (Some (OtherException ''OverflowError''), s)
      else if secs < 0 then (Some (OtherException ''ValueError''), s)
      else (None, emit (Slept secs) s))"

text \<open>The body of the \<^verbatim>\<open>try\<close>: \<^verbatim>\<open>result = attempt(); validate(result)\<close>. \<open>Inl e\<close>: one of
  the two raised \<open>e\<close>.\<close>

definition try_block ::
  "('w state \<Rightarrow> (exn + 'r) \<times> 'w state) \<Rightarrow> ('r \<Rightarrow> 'w state \<Rightarrow> exn option \<times> 'w state)
   \<Rightarrow> 'w state \<Rightarrow> (exn + 'r) \<times> 'w state" where
  "try_block attempt validate s =
     (case attempt (emit AttemptCalled s) of
        (Inl e, s1) \<Rightarrow> (Inl e, s1)
      | (Inr r, s1) \<Rightarrow>
          (case validate r s1 of
             (Some e, s2) \<Rightarrow> (Inl e, s2)
           | (None, s2) \<Rightarrow> (Inr r, s2)))"

text \<open>The \<^verbatim>\<open>while\<close> loop of \<^verbatim>\<open>make_attempts\<close>, from the state in which \<open>made\<close> attempts are
  counted and \<open>errs\<close> are recorded. \<open>Inl e\<close>: \<open>e\<close> leaves \<^verbatim>\<open>make_attempts\<close> (only
  \<^verbatim>\<open>time.sleep\<close> can do that: it is outside the \<^verbatim>\<open>try\<close>).\<close>

function make_attempts_loop ::
  "AttemptStrategy \<Rightarrow> ('w state \<Rightarrow> (exn + 'r) \<times> 'w state)
   \<Rightarrow> ('r \<Rightarrow> 'w state \<Rightarrow> exn option \<times> 'w state) \<Rightarrow> (exn \<Rightarrow> bool) \<Rightarrow> (exn \<Rightarrow> string option)
   \<Rightarrow> int \<Rightarrow> exn ExceptionContext list \<Rightarrow> 'w state
   \<Rightarrow> (exn + 'r attempt_result) \<times> 'w state" where
  "make_attempts_loop self attempt validate retryable exception_context made errs s =
     (if made < attempts self then
        (case try_block attempt validate s of
           (Inr r, s1) \<Rightarrow> (Inr (SuccessResult errs r), s1)
         | (Inl e, s1) \<Rightarrow>
             (let errs1 = errs @ [ExceptionContext e (exception_context e)] in
              if \<not> retryable e then
                (Inr (ErrorResult errs1), emit (Logged (LogCannotRetry e)) s1)
              else if made + 1 \<ge> attempts self then (Inr (ErrorResult errs1), s1)
              else
                (case time_sleep (attempt_interval_seconds self) s1 of
                   (Some x, s2) \<Rightarrow> (Inl x, s2)
                 | (None, s2) \<Rightarrow>
                     make_attempts_loop self attempt validate retryable exception_context
                       (made + 1) errs1 s2)))
      else (Inr (ErrorResult errs), s))"
  by pat_completeness auto
termination
  by (relation "measure (\<lambda>(self, attempt, validate, retryable, exception_context, made, errs, s).
        nat (attempts self - made))") auto

declare make_attempts_loop.simps [simp del]

definition make_attempts ::
  "AttemptStrategy \<Rightarrow> ('w state \<Rightarrow> (exn + 'r) \<times> 'w state)
   \<Rightarrow> ('r \<Rightarrow> 'w state \<Rightarrow> exn option \<times> 'w state) \<Rightarrow> (exn \<Rightarrow> bool) \<Rightarrow> (exn \<Rightarrow> string option)
   \<Rightarrow> 'w state \<Rightarrow> (exn + 'r attempt_result) \<times> 'w state" where
  "make_attempts self attempt validate retryable exception_context s =
     make_attempts_loop self attempt validate retryable exception_context 0 [] s"





text \<open>A world that is a script of answers: a call takes the next one, and \<open>dflt\<close> when
  none is left.\<close>

definition next_answer :: "'a \<Rightarrow> 'a list \<Rightarrow> 'a \<times> 'a list" where
  "next_answer dflt w = (case w of [] \<Rightarrow> (dflt, []) | x # xs \<Rightarrow> (x, xs))"

definition start :: "'w \<Rightarrow> (operation \<Rightarrow> dict) \<Rightarrow> 'w state" where
  "start w templates =
     \<lparr>world = w, GQLOperations = templates, copies = (\<lambda>n. []), next_copy = 0, trace = []\<rparr>"

section \<open>Integration.py: classification\<close>

definition is_recoverable_error :: "exn \<Rightarrow> bool" where
  "is_recoverable_error e =
     (if isinstance_RequestException e then True
      else if isinstance_GQLError e then GQLError_recoverable e
      else False)"

text \<open>\<open>format_exc\<close> stands for \<^verbatim>\<open>traceback.format_exc()\<close> while \<open>e\<close> is being handled; it
  always returns a string.\<close>

definition error_context :: "(exn \<Rightarrow> string) \<Rightarrow> exn \<Rightarrow> string option" where
  "error_context format_exc e =
     (if \<not> isinstance_GQLError e then Some (format_exc e) else None)"

section \<open>Integration.py: the request executor\<close>

text \<open>A value that a parse callback returns: \<^verbatim>\<open>None\<close>, a list, or a response object.\<close>

datatype 'a pyval = PNone | PList "'a pyval list" | PData 'a

text \<open>The fields of the session that the headers and the variables read (the results of
  \<^verbatim>\<open>login.get_auth_token()\<close> and of \<^verbatim>\<open>login.get_user_id()\<close>, formatted, among them).\<close>

record ClientSession =
  auth_token :: string
  session_id :: string
  version :: string
  user_agent :: string
  device_id :: string
  user_id :: string

text \<open>The object \<^verbatim>\<open>GQL\<close>. Its parser is not a field here: each operation takes the parse
  method it uses as an argument.\<close>

record 'w GQL =
  client_session :: ClientSession
  attempt_strategy :: AttemptStrategy
  post_request :: "string \<Rightarrow> json \<Rightarrow> (string \<times> string) list \<Rightarrow> 'w \<Rightarrow> (exn + Response) \<times> 'w"

text \<open>What Integration.py imports and the sources do not hold: the constants
  \<^verbatim>\<open>GQLOperations.url\<close> and \<^verbatim>\<open>CLIENT_ID\<close>, \<^verbatim>\<open>secrets.token_hex\<close> and
  \<^verbatim>\<open>traceback.format_exc\<close>.\<close>

record 'w externals =
  url :: string
  CLIENT_ID :: string
  token_hex :: "nat \<Rightarrow> 'w \<Rightarrow> string \<times> 'w"
  format_exc :: "exn \<Rightarrow> string"

text \<open>The objects behind references: reading one, overwriting one, \<^verbatim>\<open>copy.deepcopy\<close>,
  \<^verbatim>\<open>obj[k] = v\<close>, and what the transport serialises when it is handed a request.\<close>

fun deref :: "'w state \<Rightarrow> ref \<Rightarrow> dict" where
  "deref s (Template t) = GQLOperations s t"
| "deref s (Copy n) = copies s n"

fun store :: "ref \<Rightarrow> dict \<Rightarrow> 'w state \<Rightarrow> 'w state" where
  "store (Template t) d s = s\<lparr>GQLOperations := (GQLOperations s)(t := d)\<rparr>"
| "store (Copy n) d s = s\<lparr>copies := (copies s)(n := d)\<rparr>"

definition deepcopy :: "ref \<Rightarrow> 'w state \<Rightarrow> ref \<times> 'w state" where
  "deepcopy r s =
     (Copy (next_copy s),
      s\<lparr>copies := (copies s)(next_copy s := deref s r), next_copy := Suc (next_copy s)\<rparr>)"

definition setitem :: "ref \<Rightarrow> string \<Rightarrow> json \<Rightarrow> 'w state \<Rightarrow> 'w state" where
  "setitem r k v s = store r (dict_set (deref s r) k v) s"

definition getitem :: "dict \<Rightarrow> string \<Rightarrow> exn + json" where
  "getitem d k = (case dict_get d k of None \<Rightarrow> Inl (OtherException ''KeyError'') | Some v \<Rightarrow> Inr v)"

text \<open>\<^verbatim>\<open>obj["variables"][k] = v\<close>: KeyError without the key \<^verbatim>\<open>variables\<close>, TypeError when its
  value is not a dict.\<close>

definition setitem_in_variables :: "ref \<Rightarrow> string \<Rightarrow> json \<Rightarrow> 'w state \<Rightarrow> exn option \<times> 'w state" where
  "setitem_in_variables r k v s =
     (case dict_get (deref s r) ''variables'' of
        None \<Rightarrow> (Some (OtherException ''KeyError''), s)
      | Some (JDict vars) \<Rightarrow> (None, setitem r ''variables'' (JDict (dict_set vars k v)) s)
      | Some other \<Rightarrow> (Some (OtherException ''TypeError''), s))"

fun content :: "'w state \<Rightarrow> request \<Rightarrow> json" where
  "content s (ReqDict r) = JDict (deref s r)"
| "content s (ReqList rs) = JList (map (\<lambda>r. JDict (deref s r)) rs)"

text \<open>\<^verbatim>\<open>list(map(f, xs))\<close> and the list comprehension, for an \<open>f\<close> that may raise: the first
  exception ends it.\<close>

fun map_raise :: "('a \<Rightarrow> exn + 'b) \<Rightarrow> 'a list \<Rightarrow> exn + 'b list" where
  "map_raise f [] = Inr []"
| "map_raise f (x # xs) =
     (case f x of
        Inl e \<Rightarrow> Inl e
      | Inr y \<Rightarrow> (case map_raise f xs of Inl e \<Rightarrow> Inl e | Inr ys \<Rightarrow> Inr (y # ys)))"

definition validate_response :: "'a \<Rightarrow> 'w state \<Rightarrow> exn option \<times> 'w state" where
  "validate_response v s = (None, s)"

definition parse_list :: "(json \<Rightarrow> exn + 'a pyval) \<Rightarrow> json \<Rightarrow> exn + 'a pyval" where
  "parse_list parse v =
     (case v of
        JList items \<Rightarrow>
          (case map_raise parse items of Inl e \<Rightarrow> Inl e | Inr ys \<Rightarrow> Inr (PList ys))
      | other \<Rightarrow> Inl (InvalidJsonShapeException [] ''list expected''))"

definition headers :: "'w externals \<Rightarrow> 'w GQL \<Rightarrow> (string \<times> string) list" where
  "headers ext self =
     [(''Authorization'', ''OAuth '' @ auth_token (client_session self)),
      (''Client-Id'', CLIENT_ID ext),
      (''Client-Session-Id'', session_id (client_session self)),
      (''Client-Version'', version (client_session self)),
      (''User-Agent'', user_agent (client_session self)),
      (''X-Device-Id'', device_id (client_session self))]"

text \<open>\<^verbatim>\<open>GQL.__post_gql_request\<close>: one attempt.\<close>

definition post_gql_request ::
  "'w externals \<Rightarrow> 'w GQL \<Rightarrow> request \<Rightarrow> (json \<Rightarrow> exn + 'a pyval) \<Rightarrow> 'w state
   \<Rightarrow> (exn + 'a pyval) \<times> 'w state" where
  "post_gql_request ext self request_json parse s =
     (let body = content s request_json in
      case on_world (post_request self (url ext) body (headers ext self))
             (emit (Posted request_json body) s) of
        (Inl e, s1) \<Rightarrow> (Inl e, s1)
      | (Inr response, s1) \<Rightarrow>
          (let s2 = emit (Logged (LogData body (status_code response) (response_text response))) s1 in
           case raise_for_status response of
             Some e \<Rightarrow> (Inl e, s2)
           | None \<Rightarrow>
               (case json response of
                  Inl e \<Rightarrow> (Inl e, s2)
                | Inr response_json \<Rightarrow>
                    (case request_json of
                       ReqList rs \<Rightarrow>
                         (case response_json of
                            JList items \<Rightarrow>
                              (case map_raise parse items of
                                 Inl e \<Rightarrow> (Inl e, s2)
                               | Inr ys \<Rightarrow> (Inr (PList ys), s2))
                          | other \<Rightarrow>
                              (Inl (InvalidJsonShapeException []
                                 (''Expected batched response, got '' @ type_name response_json)), s2))
                     | ReqDict r \<Rightarrow>
                         (case parse response_json of
                            Inl e \<Rightarrow> (Inl e, s2)
                          | Inr v \<Rightarrow> (Inr v, s2))))))"

text \<open>\<^verbatim>\<open>GQL.__handle_result\<close>.\<close>

definition handle_result :: "'a attempt_result \<Rightarrow> json \<Rightarrow> 'w state \<Rightarrow> (exn + 'a) \<times> 'w state" where
  "handle_result res operation_name s =
     (case res of
        ErrorResult errs \<Rightarrow>
          (Inl (RetryError operation_name errs),
           emit (Logged (LogUnable operation_name (result_attempts res))) s)
      | SuccessResult errs r \<Rightarrow>
          (Inr r,
           if result_attempts res > 1
           then emit (Logged (LogSucceeded operation_name (result_attempts res) errs)) s
           else s))"

definition post_gql_request_single ::
  "'w externals \<Rightarrow> 'w GQL \<Rightarrow> json \<Rightarrow> ref \<Rightarrow> (json \<Rightarrow> exn + 'a pyval) \<Rightarrow> 'w state
   \<Rightarrow> (exn + 'a pyval) \<times> 'w state" where
  "post_gql_request_single ext self operation_name request_json parse s =
     (case make_attempts (attempt_strategy self)
             (post_gql_request ext self (ReqDict request_json) parse)
             validate_response is_recoverable_error (error_context (format_exc ext)) s of
        (Inl e, s1) \<Rightarrow> (Inl e, s1)
      | (Inr res, s1) \<Rightarrow> handle_result res operation_name s1)"

definition post_gql_request_batch ::
  "'w externals \<Rightarrow> 'w GQL \<Rightarrow> json \<Rightarrow> ref list \<Rightarrow> (json \<Rightarrow> exn + 'a pyval) \<Rightarrow> 'w state
   \<Rightarrow> (exn + 'a pyval) \<times> 'w state" where
  "post_gql_request_batch ext self operation_name request_json parse s =
     (case make_attempts (attempt_strategy self)
             (post_gql_request ext self (ReqList request_json) (\<lambda>v. parse_list parse v))
             validate_response is_recoverable_error (error_context (format_exc ext)) s of
        (Inl e, s1) \<Rightarrow> (Inl e, s1)
      | (Inr res, s1) \<Rightarrow> handle_result res operation_name s1)"

section \<open>Integration.py: the operations\<close>

text \<open>The two statements that most operations end with:
  \<^verbatim>\<open>json_data["variables"] = variables\<close> and
  \<^verbatim>\<open>return self.post_gql_request_single(GQLOperations.X["operationName"], json_data, parse)\<close>.\<close>

definition fill_and_post ::
  "'w externals \<Rightarrow> 'w GQL \<Rightarrow> operation \<Rightarrow> ref \<Rightarrow> json \<Rightarrow> (json \<Rightarrow> exn + 'a pyval) \<Rightarrow> 'w state
   \<Rightarrow> (exn + 'a pyval) \<times> 'w state" where
  "fill_and_post ext self t json_data variables parse s =
     (let s1 = setitem json_data ''variables'' variables s in
      case getitem (GQLOperations s1 t) ''operationName'' of
        Inl e \<Rightarrow> (Inl e, s1)
      | Inr operation_name \<Rightarrow> post_gql_request_single ext self operation_name json_data parse s1)"

text \<open>An operation that drops the parsed value and returns \<^verbatim>\<open>None\<close>.\<close>

definition discard :: "(exn + 'a) \<times> 'w state \<Rightarrow> (exn + unit) \<times> 'w state" where
  "discard c = (case c of (Inl e, s) \<Rightarrow> (Inl e, s) | (Inr v, s) \<Rightarrow> (Inr (), s))"

text \<open>\<^verbatim>\<open>secrets.token_hex(n)\<close>.\<close>

definition secrets_token_hex :: "'w externals \<Rightarrow> nat \<Rightarrow> 'w state \<Rightarrow> string \<times> 'w state" where
  "secrets_token_hex ext n s =
     (case on_world (token_hex ext n) s of (tok, s1) \<Rightarrow> (tok, emit (TokenHex tok) s1))"



text \<open>What \<^verbatim>\<open>parse_channel_follows_response\<close> returns, as \<^verbatim>\<open>channel_follows\<close> reads it:
  \<^verbatim>\<open>follows.edges\<close>, of each edge \<^verbatim>\<open>node.login\<close> and \<^verbatim>\<open>cursor\<close>, and
  \<^verbatim>\<open>follows.page_info.has_next_page\<close>.\<close>

record FollowEdge =
  login :: string
  cursor :: string

record ChannelFollowsResponse =
  edges :: "FollowEdge list"
  has_next_page :: bool

text \<open>The \<^verbatim>\<open>while has_next is True\<close> loop of \<^verbatim>\<open>channel_follows\<close>. It runs as long as the server
  reports a next page, so the model counts iterations down: when \<open>fuel\<close> is used up the
  answer is \<open>None\<close>, the loop has not returned. \<open>Some (Inl e)\<close>: it raised \<open>e\<close>;
  \<open>Some (Inr follows)\<close>: it returned \<open>follows\<close>. A parsed value that is a list has no
  attribute \<^verbatim>\<open>follows\<close>.\<close>

fun channel_follows_loop ::
  "nat \<Rightarrow> 'w externals \<Rightarrow> 'w GQL \<Rightarrow> ref \<Rightarrow> (json \<Rightarrow> exn + ChannelFollowsResponse pyval)
   \<Rightarrow> string \<Rightarrow> string list \<Rightarrow> 'w state \<Rightarrow> (exn + string list) option \<times> 'w state" where
  "channel_follows_loop 0 ext self json_data parse last_cursor follows s = (None, s)"
| "channel_follows_loop (Suc fuel) ext self json_data parse last_cursor follows s =
     (case setitem_in_variables json_data ''cursor'' (JStr last_cursor) s of
        (Some e, s1) \<Rightarrow> (Some (Inl e), s1)
      | (None, s1) \<Rightarrow>
          (case getitem (GQLOperations s1 ChannelFollows) ''operationName'' of
             Inl e \<Rightarrow> (Some (Inl e), s1)
           | Inr operation_name \<Rightarrow>
               (case post_gql_request_single ext self operation_name json_data parse s1 of
                  (Inl e, s2) \<Rightarrow> (Some (Inl e), s2)
                | (Inr PNone, s2) \<Rightarrow> (Some (Inr []), emit (Logged LogUnableFollowers) s2)
                | (Inr (PList xs), s2) \<Rightarrow> (Some (Inl (OtherException ''AttributeError'')), s2)
                | (Inr (PData parsed_response), s2) \<Rightarrow>
                    (let follows1 = follows @ map login (edges parsed_response);
                         last_cursor1 =
                           (if edges parsed_response = [] then last_cursor
                            else cursor (last (edges parsed_response)))
                     in if has_next_page parsed_response
                        then channel_follows_loop fuel ext self json_data parse
                               last_cursor1 follows1 s2
                        else (Some (Inr follows1), s2)))))"

text \<open>\<open>order\<close> is \<^verbatim>\<open>str(order)\<close> of the \<^verbatim>\<open>FollowersOrder\<close> given.\<close>

definition channel_follows ::
  "nat \<Rightarrow> 'w externals \<Rightarrow> 'w GQL \<Rightarrow> int \<Rightarrow> string \<Rightarrow> (json \<Rightarrow> exn + ChannelFollowsResponse pyval)
   \<Rightarrow> 'w state \<Rightarrow> (exn + string list) option \<times> 'w state" where
  "channel_follows fuel ext self limit order parse s =
     (case deepcopy (Template ChannelFollows) s of
        (json_data, s1) \<Rightarrow>
          channel_follows_loop fuel ext self json_data parse [] []
            (setitem json_data ''variables''
               (JDict [(''limit'', JInt limit), (''order'', JStr order)]) s1))"




text \<open>The dict literal is built, and the token drawn, after the copy and before the
  assignment.\<close>

definition make_prediction ::
  "'w externals \<Rightarrow> 'w GQL \<Rightarrow> string \<Rightarrow> string \<Rightarrow> int \<Rightarrow> (json \<Rightarrow> exn + 'a pyval) \<Rightarrow> 'w state
   \<Rightarrow> (exn + 'a pyval) \<times> 'w state" where
  "make_prediction ext self event_id outcome_id points parse s =
     (case deepcopy (Template MakePrediction) s of
        (json_data, s1) \<Rightarrow>
          (case secrets_token_hex ext 16 s1 of
             (transaction_id, s2) \<Rightarrow>
               fill_and_post ext self MakePrediction json_data
                 (JDict [(''input'', JDict
                    [(''eventID'', JStr event_id), (''outcomeID'', JStr outcome_id),
                     (''points'', JInt points), (''transactionID'', JStr transaction_id)])])
                 parse s2))"






text \<open>Modelled from the spec: \<^verbatim>\<open>create_chunks\<close> of \<^verbatim>\<open>TwitchChannelPointsMiner.utils\<close> is not
  among the sources. The spec has it partition the ids into order-preserving contiguous
  chunks of a fixed size, the last one shorter when the ids run out (45 ids and size 20
  give chunks of 20, 20 and 5). The only size the code passes is 20; for size 0 the model
  gives no chunk.\<close>

function create_chunks :: "'a list \<Rightarrow> nat \<Rightarrow> 'a list list" where
  "create_chunks lst n =
     (if lst = [] \<or> n = 0 then [] else take n lst # create_chunks (drop n lst) n)"
  by pat_completeness auto
termination
  by (relation "measure (\<lambda>(lst, n). length lst)") auto

declare create_chunks.simps [simp del]

text \<open>The inner \<^verbatim>\<open>for campaign in chunk\<close> of \<^verbatim>\<open>get_drop_campaign_details\<close>: \<open>json_data\<close> is
  the list built so far, and \<^verbatim>\<open>json_data[-1]\<close> is the copy just appended.\<close>

fun build_batch :: "'w GQL \<Rightarrow> string list \<Rightarrow> ref list \<Rightarrow> 'w state \<Rightarrow> ref list \<times> 'w state" where
  "build_batch self [] json_data s = (json_data, s)"
| "build_batch self (campaign # chunk) json_data s =
     (case deepcopy (Template DropCampaignDetails) s of
        (r, s1) \<Rightarrow>
          build_batch self chunk (json_data @ [r])
            (setitem (last (json_data @ [r])) ''variables''
               (JDict [(''dropID'', JStr campaign),
                       (''channelLogin'', JStr (user_id (client_session self)))]) s1))"

text \<open>The outer \<^verbatim>\<open>for chunk in chunks\<close>, with the \<^verbatim>\<open>result\<close> built so far (\<open>result_list\<close>).\<close>

fun drop_campaign_chunks ::
  "'w externals \<Rightarrow> 'w GQL \<Rightarrow> (json \<Rightarrow> exn + 'a pyval) \<Rightarrow> string list list \<Rightarrow> 'a pyval list
   \<Rightarrow> 'w state \<Rightarrow> (exn + 'a pyval list) \<times> 'w state" where
  "drop_campaign_chunks ext self parse [] result_list s = (Inr result_list, s)"
| "drop_campaign_chunks ext self parse (chunk # chunks) result_list s =
     (case build_batch self chunk [] s of
        (json_data, s1) \<Rightarrow>
          (case getitem (GQLOperations s1 DropCampaignDetails) ''operationName'' of
             Inl e \<Rightarrow> (Inl e, s1)
           | Inr operation_name \<Rightarrow>
               (case post_gql_request_batch ext self operation_name json_data parse s1 of
                  (Inl e, s2) \<Rightarrow> (Inl e, s2)
                | (Inr (PList items), s2) \<Rightarrow>
                    drop_campaign_chunks ext self parse chunks
                      (result_list @ filter (\<lambda>item. item \<noteq> PNone) items) s2
                | (Inr response, s2) \<Rightarrow>
                    drop_campaign_chunks ext self parse chunks result_list
                      (emit (Logged LogSkippingChunk) s2))))"

definition get_drop_campaign_details ::
  "'w externals \<Rightarrow> 'w GQL \<Rightarrow> string list \<Rightarrow> (json \<Rightarrow> exn + 'a pyval) \<Rightarrow> 'w state
   \<Rightarrow> (exn + 'a pyval list) \<times> 'w state" where
  "get_drop_campaign_details ext self campaign_ids parse s =
     drop_campaign_chunks ext self parse (create_chunks campaign_ids 20) [] s"



text \<open>The three parameters have no type hints: any JSON value.\<close>

definition contribute_to_community_goal ::
  "'w externals \<Rightarrow> 'w GQL \<Rightarrow> json \<Rightarrow> json \<Rightarrow> json \<Rightarrow> (json \<Rightarrow> exn + 'a pyval) \<Rightarrow> 'w state
   \<Rightarrow> (exn + 'a pyval) \<times> 'w state" where
  "contribute_to_community_goal ext self channel_id goal_id amount parse s =
     (case deepcopy (Template ContributeCommunityPointsCommunityGoal) s of
        (json_data, s1) \<Rightarrow>
          (case secrets_token_hex ext 16 s1 of
             (transaction_id, s2) \<Rightarrow>
               fill_and_post ext self ContributeCommunityPointsCommunityGoal json_data
                 (JDict [(''input'', JDict
                    [(''amount'', amount), (''channelID'', channel_id),
                     (''goalID'', goal_id), (''transactionID'', JStr transaction_id)])])
                 parse s2))"

section \<open>What the properties speak about\<close>

text \<open>\<^verbatim>\<open>isinstance(value, list)\<close> of a decoded JSON value.\<close>

fun isinstance_list :: "json \<Rightarrow> bool" where
  "isinstance_list (JList xs) = True"
| "isinstance_list v = False"

text \<open>The transport was called.\<close>

fun is_posted :: "event \<Rightarrow> bool" where
  "is_posted (Posted rq body) = True"
| "is_posted ev = False"

text \<open>The events that a call added to the trace, when the trace only grew.\<close>

definition new_events :: "'w state \<Rightarrow> 'w state \<Rightarrow> event list" where
  "new_events s s' = drop (length (trace s)) (trace s')"

definition grown :: "'w state \<Rightarrow> 'w state \<Rightarrow> bool" where
  "grown s s' = (take (length (trace s)) (trace s') = trace s)"

text \<open>From \<open>s\<close> to \<open>s'\<close> no object was written or made, and every event added satisfies
  \<open>Q\<close>.\<close>

definition adds_only :: "(event \<Rightarrow> bool) \<Rightarrow> 'w state \<Rightarrow> 'w state \<Rightarrow> bool" where
  "adds_only Q s s' =
     (GQLOperations s' = GQLOperations s \<and> copies s' = copies s \<and> next_copy s' = next_copy s \<and>
      grown s s' \<and> list_all Q (new_events s s'))"

text \<open>An event of the attempts of one call: the transport is always handed the request
  \<open>rq\<close>, with the content \<open>body\<close>, and no token is drawn.\<close>

fun attempt_event :: "request \<Rightarrow> json \<Rightarrow> event \<Rightarrow> bool" where
  "attempt_event rq body (Posted rq' body') = (rq' = rq \<and> body' = body)"
| "attempt_event rq body (TokenHex tok) = False"
| "attempt_event rq body ev = True"













section \<open>A concrete setting for runs\<close>

text \<open>The world is the list of answers that the transport will give, one for each call;
  when the list is used up the connection fails. Two attempts at most, no waiting between
  them.\<close>

definition scripted_ext :: "(exn + Response) list externals" where
  "scripted_ext =
     \<lparr>url = ''https://gql.twitch.tv/gql'', CLIENT_ID = ''client'',
      token_hex = (\<lambda>n w. (''00a1b2c3d4e5f60718293a4b5c6d7e8f'', w)),
      format_exc = (\<lambda>e. ''Traceback'')\<rparr>"

definition scripted_gql :: "(exn + Response) list GQL" where
  "scripted_gql =
     \<lparr>client_session =
        \<lparr>auth_token = ''token'', session_id = ''session'', version = ''1'',
         user_agent = ''agent'', device_id = ''device'', user_id = ''42''\<rparr>,
      attempt_strategy = \<lparr>attempts = 2, attempt_interval_seconds = 0\<rparr>,
      post_request =
        (\<lambda>url body headers. next_answer (Inl (RequestException ''ConnectionError'')))\<rparr>"

definition ok_response :: "json \<Rightarrow> Response" where
  "ok_response v = \<lparr>status_code = 200, response_text = [], raise_for_status = None, json = Inr v\<rparr>"

text \<open>Every template holds its operation name and nothing else.\<close>

definition named_templates :: "operation \<Rightarrow> dict" where
  "named_templates t = [(''operationName'', JStr ''Op'')]"

text \<open>A parse callback that wraps the decoded value.\<close>

definition parse_any :: "json \<Rightarrow> exn + json pyval" where
  "parse_any v = Inr (PData v)"

text \<open>A parse callback for pages of follows: \<^verbatim>\<open>true\<close> and \<^verbatim>\<open>false\<close> decode to a page with
  one edge that has, or has not, a next page; \<^verbatim>\<open>null\<close> decodes to \<^verbatim>\<open>None\<close>.\<close>

definition page_of :: "json \<Rightarrow> exn + ChannelFollowsResponse pyval" where
  "page_of v =
     (case v of
        JBool b \<Rightarrow> Inr (PData \<lparr>edges = [\<lparr>login = ''alice'', cursor = ''c1''\<rparr>], has_next_page = b\<rparr>)
      | JNull \<Rightarrow> Inr PNone
      | other \<Rightarrow> Inl (InvalidJsonShapeException [] ''follows''))"

text \<open>The state in which \<^verbatim>\<open>channel_follows\<close> (limit 100, ascending) enters its loop.\<close>

definition follows_start :: "(exn + Response) list \<Rightarrow> (exn + Response) list state" where
  "follows_start w =
     \<lparr>world = w, GQLOperations = named_templates,
      copies = (\<lambda>n. [])(0 := [(''operationName'', JStr ''Op''),
        (''variables'', JDict [(''limit'', JInt 100), (''order'', JStr ''ASC'')])]),
      next_copy = 1, trace = []\<rparr>"

section \<open>Properties of the retry engine\<close>

text \<open>For runs in the concrete setting: the definitions to unfold, the loop of
  \<^verbatim>\<open>make_attempts\<close> at its first and second round only.\<close>

lemmas run_defs =
  make_attempts_def make_attempts_loop.simps [where made = 0]
  make_attempts_loop.simps [where made = 1] try_block_def time_sleep_def
  post_gql_request_def post_gql_request_single_def post_gql_request_batch_def handle_result_def
  on_world_def emit_def next_answer_def validate_response_def is_recoverable_error_def
  error_context_def deepcopy_def setitem_def setitem_in_variables_def getitem_def
  fill_and_post_def scripted_ext_def scripted_gql_def ok_response_def named_templates_def
  start_def parse_any_def headers_def Let_def















section \<open>Properties of the classification\<close>

lemma py_all_iff: "py_all bs = (\<forall>b\<in>set bs. b)"
  by (induction bs) auto

text \<open>
  C6. \<^verbatim>\<open>is_recoverable_error\<close> is true of every \<^verbatim>\<open>RequestException\<close>, is the error's own
  \<^verbatim>\<open>recoverable()\<close> for every \<^verbatim>\<open>GQLError\<close>, and is false of every other exception;
  \<^verbatim>\<open>error_context\<close> is the stack trace for every exception that is not a \<^verbatim>\<open>GQLError\<close> and
  \<open>None\<close> for every \<^verbatim>\<open>GQLError\<close>.
\<close>

theorem classification_of_errors:
  "(isinstance_RequestException e \<longrightarrow> is_recoverable_error e) \<and>
   (isinstance_GQLError e \<longrightarrow> is_recoverable_error e = GQLError_recoverable e) \<and>
   (\<not> isinstance_RequestException e \<and> \<not> isinstance_GQLError e \<longrightarrow> \<not> is_recoverable_error e) \<and>
   (\<not> isinstance_GQLError e \<longrightarrow> error_context trace_of e = Some (trace_of e)) \<and>
   (isinstance_GQLError e \<longrightarrow> error_context trace_of e = None)"
  by (cases e) (simp_all add: is_recoverable_error_def error_context_def)

theorem classification_of_errors_witness:
  "is_recoverable_error (RequestException ''timeout'') \<and>
   error_context (\<lambda>e. ''Traceback'') (RequestException ''timeout'') = Some ''Traceback'' \<and>
   is_recoverable_error (GQLResponseErrors ''Inventory'' [\<lparr>recoverable = True\<rparr>]) =
     GQLError_recoverable (GQLResponseErrors ''Inventory'' [\<lparr>recoverable = True\<rparr>]) \<and>
   error_context (\<lambda>e. ''Traceback'') (GQLResponseErrors ''Inventory'' [\<lparr>recoverable = True\<rparr>]) = None \<and>
   \<not> is_recoverable_error (OtherException ''KeyError'') \<and>
   error_context (\<lambda>e. ''Traceback'') (OtherException ''KeyError'') = Some ''Traceback''"
  using classification_of_errors [of "RequestException ''timeout''" "\<lambda>e. ''Traceback''"]
    classification_of_errors
      [of "GQLResponseErrors ''Inventory'' [\<lparr>recoverable = True\<rparr>]" "\<lambda>e. ''Traceback''"]
    classification_of_errors [of "OtherException ''KeyError''" "\<lambda>e. ''Traceback''"]
  by simp

text \<open>
  C7. \<^verbatim>\<open>GQLResponseErrors.recoverable()\<close> is true if and only if every error of its list is
  recoverable; for the empty list it is true.
\<close>

theorem response_errors_recoverable:
  "GQLError_recoverable (GQLResponseErrors name es) = (\<forall>e\<in>set es. recoverable e) \<and>
   GQLError_recoverable (GQLResponseErrors name []) = True"
  by (simp add: py_all_iff)

theorem response_errors_recoverable_witness:
  "GQLError_recoverable
     (GQLResponseErrors ''ChannelFollows'' [\<lparr>recoverable = True\<rparr>, \<lparr>recoverable = True\<rparr>]) \<and>
   \<not> GQLError_recoverable
     (GQLResponseErrors ''ChannelFollows'' [\<lparr>recoverable = True\<rparr>, \<lparr>recoverable = False\<rparr>])"
  using response_errors_recoverable
      [of "''ChannelFollows''" "[\<lparr>recoverable = True\<rparr>, \<lparr>recoverable = True\<rparr>]"]
    response_errors_recoverable
      [of "''ChannelFollows''" "[\<lparr>recoverable = True\<rparr>, \<lparr>recoverable = False\<rparr>]"]
  by simp

section \<open>Properties of the request executor\<close>

lemma deref_trace_update [simp]: "deref (s\<lparr>trace := t\<rparr>) r = deref s r"
  by (cases r) simp_all

lemma deref_world_update [simp]: "deref (s\<lparr>world := w\<rparr>) r = deref s r"
  by (cases r) simp_all

lemma content_trace_update [simp]: "content (s\<lparr>trace := t\<rparr>) rq = content s rq"
  by (cases rq) simp_all

lemma content_world_update [simp]: "content (s\<lparr>world := w\<rparr>) rq = content s rq"
  by (cases rq) simp_all

lemma map_raise_all2:
  "list_all2 (\<lambda>x y. f x = Inr y) xs ys \<Longrightarrow> map_raise f xs = Inr ys"
  by (induction xs ys rule: list_all2_induct) simp_all

lemma adds_onlyI:
  "GQLOperations s' = GQLOperations s \<Longrightarrow> copies s' = copies s \<Longrightarrow> next_copy s' = next_copy s \<Longrightarrow>
   trace s' = trace s @ evs \<Longrightarrow> list_all Q evs \<Longrightarrow> adds_only Q s s'"
  by (simp add: adds_only_def grown_def new_events_def)

lemma adds_onlyD:
  assumes "adds_only Q s s'"
  shows "GQLOperations s' = GQLOperations s" and "copies s' = copies s"
    and "next_copy s' = next_copy s"
    and "trace s' = trace s @ new_events s s'" and "list_all Q (new_events s s')"
proof -
  show "trace s' = trace s @ new_events s s'"
    using assms append_take_drop_id [of "length (trace s)" "trace s'"]
    by (simp add: adds_only_def grown_def new_events_def)
qed (use assms in \<open>simp_all add: adds_only_def\<close>)

lemma adds_only_refl: "adds_only Q s s"
  by (rule adds_onlyI [where evs = "[]"]) simp_all

lemma adds_only_trans:
  assumes "adds_only Q s s1" and "adds_only Q s1 s2"
  shows "adds_only Q s s2"
  using adds_onlyD [OF assms(1)] adds_onlyD [OF assms(2)]
  by (intro adds_onlyI [where evs = "new_events s s1 @ new_events s1 s2"]) simp_all

lemma adds_only_emit: "Q ev \<Longrightarrow> adds_only Q s (emit ev s)"
  by (rule adds_onlyI [where evs = "[ev]"]) (simp_all add: emit_def)

lemma adds_only_world: "adds_only Q s (s\<lparr>world := w\<rparr>)"
  by (rule adds_onlyI [where evs = "[]"]) simp_all

lemma adds_only_mono:
  assumes "adds_only Q s s'" and "\<And>ev. Q ev \<Longrightarrow> Q' ev"
  shows "adds_only Q' s s'"
  using adds_onlyD [OF assms(1)] assms(2)
  by (intro adds_onlyI [where evs = "new_events s s'"]) (auto simp: list_all_iff)

lemma adds_only_content: "adds_only Q s s' \<Longrightarrow> content s' rq = content s rq"
proof -
  assume a: "adds_only Q s s'"
  have "deref s' r = deref s r" for r using adds_onlyD(1,2) [OF a] by (cases r) simp_all
  then show ?thesis by (cases rq) simp_all
qed

text \<open>The engine adds only what its callbacks add, its own marks, sleeps and messages.\<close>

lemma try_block_adds_only:
  assumes att: "\<And>s. adds_only Q s0 s \<Longrightarrow> adds_only Q s0 (snd (attempt s))"
    and val: "\<And>r s. adds_only Q s0 s \<Longrightarrow> adds_only Q s0 (snd (validate r s))"
    and q: "Q AttemptCalled"
    and s: "adds_only Q s0 s"
  shows "adds_only Q s0 (snd (try_block attempt validate s))"
proof -
  have a: "adds_only Q s0 (emit AttemptCalled s)"
    using s adds_only_emit [of Q AttemptCalled s] q adds_only_trans by blast
  obtain x s1 where x: "attempt (emit AttemptCalled s) = (x, s1)" by fastforce
  have s1: "adds_only Q s0 s1" using att [OF a] x by simp
  show ?thesis
  proof (cases x)
    case (Inl e)
    then show ?thesis using x s1 by (simp add: try_block_def)
  next
    case (Inr r)
    obtain y s2 where y: "validate r s1 = (y, s2)" by fastforce
    have "adds_only Q s0 s2" using val [OF s1, of r] y by simp
    then show ?thesis using x Inr y by (cases y) (simp_all add: try_block_def)
  qed
qed

lemma loop_adds_only:
  assumes att: "\<And>s. adds_only Q s0 s \<Longrightarrow> adds_only Q s0 (snd (attempt s))"
    and val: "\<And>r s. adds_only Q s0 s \<Longrightarrow> adds_only Q s0 (snd (validate r s))"
    and q: "Q AttemptCalled" "\<And>n. Q (Slept n)" "\<And>l. Q (Logged l)"
  shows "adds_only Q s0 s \<Longrightarrow>
     adds_only Q s0 (snd (make_attempts_loop self attempt validate retryable ctx made errs s))"
proof (induction "nat (attempts self - made)" arbitrary: made errs s)
  case 0
  then show ?case by (subst make_attempts_loop.simps) simp
next
  case (Suc n)
  have n: "n = nat (attempts self - (made + 1))" using Suc.hyps(2) by simp
  have lt: "made < attempts self" using Suc.hyps(2) by simp
  obtain x s1 where x: "try_block attempt validate s = (x, s1)" by fastforce
  have s1: "adds_only Q s0 s1"
    using try_block_adds_only [of Q s0 attempt validate s, OF att val q(1) Suc.prems] x by simp
  have e: "adds_only Q s0 (emit ev s1)" if "Q ev" for ev
    using that s1 adds_only_emit [of Q ev s1] adds_only_trans by blast
  show ?case
  proof (cases x)
    case (Inr r)
    then show ?thesis using x lt s1 by (subst make_attempts_loop.simps) simp
  next
    case (Inl e1)
    have ih: "adds_only Q s0 (snd (make_attempts_loop self attempt validate retryable ctx
        (made + 1) (errs @ [ExceptionContext e1 (ctx e1)])
        (emit (Slept (attempt_interval_seconds self)) s1)))"
      by (rule Suc.hyps(1) [OF n]) (rule e, rule q(2))
    show ?thesis
      using x Inl lt s1 e [OF q(3)] ih
      by (subst make_attempts_loop.simps) (simp add: time_sleep_def Let_def)
  qed
qed

lemma post_gql_request_state:
  "\<exists>w l. snd (post_gql_request ext self rq parse s) =
      s\<lparr>world := w, trace := trace s @ Posted rq (content s rq) # map Logged l\<rparr>"
proof -
  obtain a w where post:
    "post_request self (url ext) (content s rq) (headers ext self) (world s) = (a, w)"
    by fastforce
  show ?thesis
  proof (cases a)
    case (Inl e)
    then have "snd (post_gql_request ext self rq parse s) =
      s\<lparr>world := w, trace := trace s @ Posted rq (content s rq) # map Logged []\<rparr>"
      using post by (simp add: post_gql_request_def on_world_def Let_def emit_def)
    then show ?thesis by blast
  next
    case (Inr response)
    have "snd (post_gql_request ext self rq parse s) =
      s\<lparr>world := w, trace := trace s @ Posted rq (content s rq) #
        map Logged [LogData (content s rq) (status_code response) (response_text response)]\<rparr>"
      using post Inr
      by (simp add: post_gql_request_def on_world_def Let_def emit_def
          split: sum.splits option.splits request.splits json.splits)
    then show ?thesis by blast
  qed
qed

lemma post_gql_request_adds_only:
  "adds_only (attempt_event rq (content s rq)) s (snd (post_gql_request ext self rq parse s))"
proof -
  obtain w l where "snd (post_gql_request ext self rq parse s) =
      s\<lparr>world := w, trace := trace s @ Posted rq (content s rq) # map Logged l\<rparr>"
    using post_gql_request_state [of ext self rq parse s] by auto
  then show ?thesis
    by (intro adds_onlyI [where evs = "Posted rq (content s rq) # map Logged l"])
       (simp_all add: list_all_iff)
qed

lemma make_attempts_adds_only:
  "adds_only (attempt_event rq (content s rq)) s
     (snd (make_attempts strat (post_gql_request ext self rq parse) validate_response
        retryable ctx s))"
proof -
  let ?Q = "attempt_event rq (content s rq)"
  have att: "adds_only ?Q s (snd (post_gql_request ext self rq parse s1))"
    if "adds_only ?Q s s1" for s1
  proof -
    have "adds_only (attempt_event rq (content s1 rq)) s1
        (snd (post_gql_request ext self rq parse s1))"
      by (rule post_gql_request_adds_only)
    then have "adds_only ?Q s1 (snd (post_gql_request ext self rq parse s1))"
      using adds_only_content [OF that, of rq] by simp
    with that show ?thesis by (rule adds_only_trans)
  qed
  show ?thesis
    unfolding make_attempts_def
    by (rule loop_adds_only [OF att]) (simp_all add: validate_response_def adds_only_refl)
qed

lemma handle_result_adds_only:
  "(\<And>l. Q (Logged l)) \<Longrightarrow> adds_only Q s (snd (handle_result res name s))"
  by (cases res) (simp_all add: handle_result_def adds_only_emit adds_only_refl)

lemma post_gql_request_single_adds_only:
  "adds_only (attempt_event (ReqDict r) (JDict (deref s r))) s
     (snd (post_gql_request_single ext self name r parse s))"
proof -
  let ?Q = "attempt_event (ReqDict r) (JDict (deref s r))"
  obtain x s1 where x: "make_attempts (attempt_strategy self)
      (post_gql_request ext self (ReqDict r) parse) validate_response is_recoverable_error
      (error_context (format_exc ext)) s = (x, s1)" by fastforce
  have m: "adds_only ?Q s s1"
    using make_attempts_adds_only [of "ReqDict r" s "attempt_strategy self" ext self parse
      is_recoverable_error "error_context (format_exc ext)"] x by simp
  show ?thesis
  proof (cases x)
    case (Inl e)
    then show ?thesis using x m by (simp add: post_gql_request_single_def)
  next
    case (Inr res)
    have "adds_only ?Q s1 (snd (handle_result res name s1))"
      by (rule handle_result_adds_only) simp
    with m have "adds_only ?Q s (snd (handle_result res name s1))" by (rule adds_only_trans)
    then show ?thesis using x Inr by (simp add: post_gql_request_single_def)
  qed
qed


lemma make_attempts_rejects_non_array:
  assumes "post_request self (url ext) (content s (ReqList rs)) (headers ext self) (world s) =
      (Inr response, w)"
    and "raise_for_status response = None"
    and "json response = Inr v"
    and "\<not> isinstance_list v"
    and "1 \<le> attempts (attempt_strategy self)"
  shows "make_attempts (attempt_strategy self) (post_gql_request ext self (ReqList rs) parse)
           validate_response is_recoverable_error (error_context (format_exc ext)) s =
         (Inr (ErrorResult [ExceptionContext
            (InvalidJsonShapeException [] (''Expected batched response, got '' @ type_name v))
            None]),
          s\<lparr>world := w, trace := trace s @
            [AttemptCalled, Posted (ReqList rs) (content s (ReqList rs)),
             Logged (LogData (content s (ReqList rs)) (status_code response)
               (response_text response)),
             Logged (LogCannotRetry (InvalidJsonShapeException []
               (''Expected batched response, got '' @ type_name v)))]\<rparr>)"
proof -
  have "post_gql_request ext self (ReqList rs) parse (emit AttemptCalled s) =
     (Inl (InvalidJsonShapeException [] (''Expected batched response, got '' @ type_name v)),
      s\<lparr>world := w, trace := trace s @
                 [AttemptCalled, Posted (ReqList rs) (content s (ReqList rs)),
                  Logged (LogData (content s (ReqList rs)) (status_code response)
                    (response_text response))]\<rparr>)"
    using assms(1-4)
    by (cases v) (simp_all add: post_gql_request_def on_world_def emit_def Let_def)
  with assms(5) show ?thesis
    unfolding make_attempts_def
    by (subst make_attempts_loop.simps)
       (simp add: try_block_def is_recoverable_error_def error_context_def emit_def)
qed

text \<open>
  The private helper \<^verbatim>\<open>__post_gql_request\<close> alone, in one attempt with a list as request,
  whose transport answers with a response that passes \<^verbatim>\<open>raise_for_status\<close> and decodes to
  \<open>v\<close>. If \<open>v\<close> is an array whose elements the callback it was given turns, position by
  position, into \<open>ys\<close>, it returns the list \<open>ys\<close>. If \<open>v\<close> is not an array, it raises
  \<^verbatim>\<open>InvalidJsonShapeException\<close>; \<^verbatim>\<open>recoverable()\<close> of such an exception is false; and
  \<^verbatim>\<open>make_attempts\<close> with at least one attempt allowed ends there.
\<close>

lemma list_request_attempt:
  assumes "post_request self (url ext) (content s (ReqList rs)) (headers ext self) (world s) =
      (Inr response, w)"
    and "raise_for_status response = None"
    and "json response = Inr v"
  shows "(v = JList items \<and> list_all2 (\<lambda>item y. parse item = Inr y) items ys \<longrightarrow>
            fst (post_gql_request ext self (ReqList rs) parse s) = Inr (PList ys)) \<and>
         (\<not> isinstance_list v \<longrightarrow>
            fst (post_gql_request ext self (ReqList rs) parse s) =
              Inl (InvalidJsonShapeException [] (''Expected batched response, got '' @ type_name v)) \<and>
            \<not> GQLError_recoverable (InvalidJsonShapeException p m) \<and>
            (1 \<le> attempts (attempt_strategy self) \<longrightarrow>
              make_attempts (attempt_strategy self) (post_gql_request ext self (ReqList rs) parse)
                validate_response is_recoverable_error (error_context (format_exc ext)) s =
              (Inr (ErrorResult [ExceptionContext
                 (InvalidJsonShapeException [] (''Expected batched response, got '' @ type_name v))
                 None]),
               s\<lparr>world := w, trace := trace s @
                 [AttemptCalled, Posted (ReqList rs) (content s (ReqList rs)),
                  Logged (LogData (content s (ReqList rs)) (status_code response)
                    (response_text response)),
                  Logged (LogCannotRetry (InvalidJsonShapeException []
                    (''Expected batched response, got '' @ type_name v)))]\<rparr>)))"
proof (intro conjI impI)
  assume "v = JList items \<and> list_all2 (\<lambda>item y. parse item = Inr y) items ys"
  then have "map_raise parse items = Inr ys" and "v = JList items"
    by (simp_all add: map_raise_all2)
  then show "fst (post_gql_request ext self (ReqList rs) parse s) = Inr (PList ys)"
    using assms by (simp add: post_gql_request_def on_world_def emit_def Let_def)
next
  assume nl: "\<not> isinstance_list v"
  then show a: "fst (post_gql_request ext self (ReqList rs) parse s) =
      Inl (InvalidJsonShapeException [] (''Expected batched response, got '' @ type_name v))"
    using assms
    by (cases v) (simp_all add: post_gql_request_def on_world_def emit_def Let_def)
  show "\<not> GQLError_recoverable (InvalidJsonShapeException p m)"
    by simp
  assume "1 \<le> attempts (attempt_strategy self)"
  with assms nl show "make_attempts (attempt_strategy self)
                (post_gql_request ext self (ReqList rs) parse)
                validate_response is_recoverable_error (error_context (format_exc ext)) s =
              (Inr (ErrorResult [ExceptionContext
                 (InvalidJsonShapeException [] (''Expected batched response, got '' @ type_name v))
                 None]),
               s\<lparr>world := w, trace := trace s @
                 [AttemptCalled, Posted (ReqList rs) (content s (ReqList rs)),
                  Logged (LogData (content s (ReqList rs)) (status_code response)
                    (response_text response)),
                  Logged (LogCannotRetry (InvalidJsonShapeException []
                    (''Expected batched response, got '' @ type_name v)))]\<rparr>)"
    by (rule make_attempts_rejects_non_array)
qed

lemma fill_and_post_copy:
  "\<exists>evs. GQLOperations (snd (fill_and_post ext self t (Copy n) v parse s)) = GQLOperations s \<and>
     copies (snd (fill_and_post ext self t (Copy n) v parse s)) =
       (copies s)(n := dict_set (copies s n) ''variables'' v) \<and>
     next_copy (snd (fill_and_post ext self t (Copy n) v parse s)) = next_copy s \<and>
     trace (snd (fill_and_post ext self t (Copy n) v parse s)) = trace s @ evs \<and>
     list_all (attempt_event (ReqDict (Copy n))
       (JDict (dict_set (copies s n) ''variables'' v))) evs"
proof -
  let ?d = "dict_set (copies s n) ''variables'' v"
  let ?s1 = "s\<lparr>copies := (copies s)(n := ?d)\<rparr>"
  let ?Q = "attempt_event (ReqDict (Copy n)) (JDict ?d)"
  have s1: "setitem (Copy n) ''variables'' v s = ?s1" by (simp add: setitem_def)
  have "adds_only ?Q ?s1 (snd (fill_and_post ext self t (Copy n) v parse s))"
  proof (cases "getitem (GQLOperations ?s1 t) ''operationName''")
    case (Inl e)
    then show ?thesis by (simp add: fill_and_post_def s1 adds_only_refl)
  next
    case (Inr name)
    have "adds_only (attempt_event (ReqDict (Copy n)) (JDict (deref ?s1 (Copy n)))) ?s1
        (snd (post_gql_request_single ext self name (Copy n) parse ?s1))"
      by (rule post_gql_request_single_adds_only)
    then show ?thesis using Inr by (simp add: fill_and_post_def s1)
  qed
  from adds_onlyD [OF this] show ?thesis by auto
qed

text \<open>
  C1. In \<^verbatim>\<open>make_prediction\<close> and in \<^verbatim>\<open>contribute_to_community_goal\<close> the first thing the
  call does to the outside is to draw one token; everything after that belongs to the
  attempts, none of which draws a token, and each of which hands the transport the same
  object, the call's own copy, with the same content: the template with \<^verbatim>\<open>variables\<close> set
  to the input that holds that token as \<^verbatim>\<open>transactionID\<close>.
\<close>

theorem transaction_token_drawn_once:
  "(\<exists>rest.
      trace (snd (make_prediction ext self event_id outcome_id points parse s)) =
        trace s @ TokenHex (fst (token_hex ext 16 (world s))) # rest \<and>
      list_all (attempt_event (ReqDict (Copy (next_copy s)))
        (JDict (dict_set (GQLOperations s MakePrediction) ''variables''
           (JDict [(''input'', JDict
              [(''eventID'', JStr event_id), (''outcomeID'', JStr outcome_id),
               (''points'', JInt points),
               (''transactionID'', JStr (fst (token_hex ext 16 (world s))))])])))) rest) \<and>
   (\<exists>rest.
      trace (snd (contribute_to_community_goal ext self channel_id goal_id amount parse' s)) =
        trace s @ TokenHex (fst (token_hex ext 16 (world s))) # rest \<and>
      list_all (attempt_event (ReqDict (Copy (next_copy s)))
        (JDict (dict_set (GQLOperations s ContributeCommunityPointsCommunityGoal) ''variables''
           (JDict [(''input'', JDict
              [(''amount'', amount), (''channelID'', channel_id), (''goalID'', goal_id),
               (''transactionID'', JStr (fst (token_hex ext 16 (world s))))])])))) rest)"
proof (intro conjI)
  obtain tok w where tw: "token_hex ext 16 (world s) = (tok, w)" by fastforce
  let ?v = "JDict [(''input'', JDict
              [(''eventID'', JStr event_id), (''outcomeID'', JStr outcome_id),
               (''points'', JInt points), (''transactionID'', JStr tok)])]"
  let ?s2 = "s\<lparr>copies := (copies s)(next_copy s := GQLOperations s MakePrediction),
    next_copy := Suc (next_copy s), world := w, trace := trace s @ [TokenHex tok]\<rparr>"
  have run: "make_prediction ext self event_id outcome_id points parse s =
      fill_and_post ext self MakePrediction (Copy (next_copy s)) ?v parse ?s2"
    using tw
    by (simp add: make_prediction_def deepcopy_def secrets_token_hex_def on_world_def emit_def)
  from fill_and_post_copy [of ext self MakePrediction "next_copy s" ?v parse ?s2]
  show "\<exists>rest.
      trace (snd (make_prediction ext self event_id outcome_id points parse s)) =
        trace s @ TokenHex (fst (token_hex ext 16 (world s))) # rest \<and>
      list_all (attempt_event (ReqDict (Copy (next_copy s)))
        (JDict (dict_set (GQLOperations s MakePrediction) ''variables''
           (JDict [(''input'', JDict
              [(''eventID'', JStr event_id), (''outcomeID'', JStr outcome_id),
               (''points'', JInt points),
               (''transactionID'', JStr (fst (token_hex ext 16 (world s))))])])))) rest"
    unfolding run using tw by auto
next
  obtain tok w where tw: "token_hex ext 16 (world s) = (tok, w)" by fastforce
  let ?v = "JDict [(''input'', JDict
              [(''amount'', amount), (''channelID'', channel_id), (''goalID'', goal_id),
               (''transactionID'', JStr tok)])]"
  let ?s2 = "s\<lparr>copies := (copies s)(next_copy s :=
      GQLOperations s ContributeCommunityPointsCommunityGoal),
    next_copy := Suc (next_copy s), world := w, trace := trace s @ [TokenHex tok]\<rparr>"
  have run: "contribute_to_community_goal ext self channel_id goal_id amount parse' s =
      fill_and_post ext self ContributeCommunityPointsCommunityGoal (Copy (next_copy s)) ?v
        parse' ?s2"
    using tw
    by (simp add: contribute_to_community_goal_def deepcopy_def secrets_token_hex_def
        on_world_def emit_def)
  from fill_and_post_copy
    [of ext self ContributeCommunityPointsCommunityGoal "next_copy s" ?v parse' ?s2]
  show "\<exists>rest.
      trace (snd (contribute_to_community_goal ext self channel_id goal_id amount parse' s)) =
        trace s @ TokenHex (fst (token_hex ext 16 (world s))) # rest \<and>
      list_all (attempt_event (ReqDict (Copy (next_copy s)))
        (JDict (dict_set (GQLOperations s ContributeCommunityPointsCommunityGoal) ''variables''
           (JDict [(''input'', JDict
              [(''amount'', amount), (''channelID'', channel_id), (''goalID'', goal_id),
               (''transactionID'', JStr (fst (token_hex ext 16 (world s))))])])))) rest"
    unfolding run using tw by auto
qed

theorem transaction_token_drawn_once_witness:
  "trace (snd (make_prediction scripted_ext scripted_gql ''ev'' ''out'' 10 parse_any
     (start [Inl (RequestException ''timeout''), Inr (ok_response (JDict []))] named_templates))) =
   [TokenHex ''00a1b2c3d4e5f60718293a4b5c6d7e8f'',
    AttemptCalled,
    Posted (ReqDict (Copy 0)) (JDict [(''operationName'', JStr ''Op''),
      (''variables'', JDict [(''input'', JDict
         [(''eventID'', JStr ''ev''), (''outcomeID'', JStr ''out''), (''points'', JInt 10),
          (''transactionID'', JStr ''00a1b2c3d4e5f60718293a4b5c6d7e8f'')])])]),
    Slept 0,
    AttemptCalled,
    Posted (ReqDict (Copy 0)) (JDict [(''operationName'', JStr ''Op''),
      (''variables'', JDict [(''input'', JDict
         [(''eventID'', JStr ''ev''), (''outcomeID'', JStr ''out''), (''points'', JInt 10),
          (''transactionID'', JStr ''00a1b2c3d4e5f60718293a4b5c6d7e8f'')])])]),
    Logged (LogData (JDict [(''operationName'', JStr ''Op''),
      (''variables'', JDict [(''input'', JDict
         [(''eventID'', JStr ''ev''), (''outcomeID'', JStr ''out''), (''points'', JInt 10),
          (''transactionID'', JStr ''00a1b2c3d4e5f60718293a4b5c6d7e8f'')])])]) 200 []),
    Logged (LogSucceeded (JStr ''Op'') 2
      [ExceptionContext (RequestException ''timeout'') (Some ''Traceback'')])] \<and>
   (\<exists>rest.
      trace (snd (make_prediction scripted_ext scripted_gql ''ev'' ''out'' 10 parse_any
        (start [Inl (RequestException ''timeout''), Inr (ok_response (JDict []))]
           named_templates))) =
        TokenHex ''00a1b2c3d4e5f60718293a4b5c6d7e8f'' # rest \<and>
      list_all (attempt_event (ReqDict (Copy 0))
        (JDict [(''operationName'', JStr ''Op''),
          (''variables'', JDict [(''input'', JDict
             [(''eventID'', JStr ''ev''), (''outcomeID'', JStr ''out''), (''points'', JInt 10),
              (''transactionID'', JStr ''00a1b2c3d4e5f60718293a4b5c6d7e8f'')])])])) rest)"
proof -
  have 1: "trace (snd (make_prediction scripted_ext scripted_gql ''ev'' ''out'' 10 parse_any
     (start [Inl (RequestException ''timeout''), Inr (ok_response (JDict []))] named_templates))) =
   [TokenHex ''00a1b2c3d4e5f60718293a4b5c6d7e8f'',
    AttemptCalled,
    Posted (ReqDict (Copy 0)) (JDict [(''operationName'', JStr ''Op''),
      (''variables'', JDict [(''input'', JDict
         [(''eventID'', JStr ''ev''), (''outcomeID'', JStr ''out''), (''points'', JInt 10),
          (''transactionID'', JStr ''00a1b2c3d4e5f60718293a4b5c6d7e8f'')])])]),
    Slept 0,
    AttemptCalled,
    Posted (ReqDict (Copy 0)) (JDict [(''operationName'', JStr ''Op''),
      (''variables'', JDict [(''input'', JDict
         [(''eventID'', JStr ''ev''), (''outcomeID'', JStr ''out''), (''points'', JInt 10),
          (''transactionID'', JStr ''00a1b2c3d4e5f60718293a4b5c6d7e8f'')])])]),
    Logged (LogData (JDict [(''operationName'', JStr ''Op''),
      (''variables'', JDict [(''input'', JDict
         [(''eventID'', JStr ''ev''), (''outcomeID'', JStr ''out''), (''points'', JInt 10),
          (''transactionID'', JStr ''00a1b2c3d4e5f60718293a4b5c6d7e8f'')])])]) 200 []),
    Logged (LogSucceeded (JStr ''Op'') 2
      [ExceptionContext (RequestException ''timeout'') (Some ''Traceback'')])]"
    by (simp add: make_prediction_def secrets_token_hex_def run_defs)
  have 2: "\<exists>rest.
      trace (snd (make_prediction scripted_ext scripted_gql ''ev'' ''out'' 10 parse_any
        (start [Inl (RequestException ''timeout''), Inr (ok_response (JDict []))]
           named_templates))) =
        TokenHex ''00a1b2c3d4e5f60718293a4b5c6d7e8f'' # rest \<and>
      list_all (attempt_event (ReqDict (Copy 0))
        (JDict [(''operationName'', JStr ''Op''),
          (''variables'', JDict [(''input'', JDict
             [(''eventID'', JStr ''ev''), (''outcomeID'', JStr ''out''), (''points'', JInt 10),
              (''transactionID'', JStr ''00a1b2c3d4e5f60718293a4b5c6d7e8f'')])])])) rest"
    using transaction_token_drawn_once [THEN conjunct1,
      of scripted_ext scripted_gql "''ev''" "''out''" 10 parse_any
        "start [Inl (RequestException ''timeout''), Inr (ok_response (JDict []))] named_templates"]
    by (simp add: scripted_ext_def start_def named_templates_def)
  from 1 2 show ?thesis by blast
qed

text \<open>A batched call that returns has returned a list: the test for a list in
  \<^verbatim>\<open>get_drop_campaign_details\<close> never fails.\<close>

lemma loop_success_from_attempt:
  assumes att: "\<And>s r. fst (attempt s) = Inr r \<Longrightarrow> P r"
  shows "fst (make_attempts_loop self attempt validate retryable ctx made errs s) =
      Inr (SuccessResult es r) \<Longrightarrow> P r"
proof (induction "nat (attempts self - made)" arbitrary: made errs s)
  case 0
  then show ?case by (subst (asm) make_attempts_loop.simps) simp
next
  case (Suc n)
  have n: "n = nat (attempts self - (made + 1))" using Suc.hyps(2) by simp
  have lt: "made < attempts self" using Suc.hyps(2) by simp
  obtain x s1 where x: "try_block attempt validate s = (x, s1)" by fastforce
  show ?case
  proof (cases x)
    case (Inr r')
    then have "fst (attempt (emit AttemptCalled s)) = Inr r'"
      using x by (auto simp: try_block_def split: prod.splits sum.splits option.splits)
    moreover have "r' = r"
      using Suc.prems x Inr lt by (subst (asm) make_attempts_loop.simps) simp
    ultimately show ?thesis using att by blast
  next
    case (Inl e)
    show ?thesis
      using Suc.prems x Inl lt Suc.hyps(1) [OF n]
      by (subst (asm) make_attempts_loop.simps)
         (auto simp: Let_def time_sleep_def split: if_splits)
  qed
qed

lemma post_gql_request_list_returns_list:
  "fst (post_gql_request ext self (ReqList rs) parse s) = Inr v \<Longrightarrow> \<exists>items. v = PList items"
  by (auto simp: post_gql_request_def on_world_def Let_def
      split: prod.splits sum.splits option.splits json.splits)

lemma post_gql_request_batch_returns_list:
  "fst (post_gql_request_batch ext self name rs parse s) = Inr v \<Longrightarrow> \<exists>items. v = PList items"
proof -
  assume a: "fst (post_gql_request_batch ext self name rs parse s) = Inr v"
  obtain x s1 where x: "make_attempts (attempt_strategy self)
      (post_gql_request ext self (ReqList rs) (\<lambda>v. parse_list parse v)) validate_response
      is_recoverable_error (error_context (format_exc ext)) s = (x, s1)" by fastforce
  from a x obtain es where "x = Inr (SuccessResult es v)"
    by (auto simp: post_gql_request_batch_def handle_result_def
        split: sum.splits attempt_result.splits)
  then have "fst (make_attempts_loop (attempt_strategy self)
      (post_gql_request ext self (ReqList rs) (\<lambda>v. parse_list parse v)) validate_response
      is_recoverable_error (error_context (format_exc ext)) 0 [] s) = Inr (SuccessResult es v)"
    using x by (simp add: make_attempts_def)
  then show ?thesis
    by (rule loop_success_from_attempt [rotated]) (rule post_gql_request_list_returns_list)
qed

text \<open>
  C8 fails in the program. The only caller that makes a request with a list,
  \<^verbatim>\<open>post_gql_request_batch\<close>, hands \<^verbatim>\<open>__post_gql_request\<close> the callback
  \<^verbatim>\<open>parse_list(parse, value)\<close>: the parse callback of the operation is applied to the elements
  of each element of the array, not to the elements of the array. Three campaigns, and a
  response that is an array of three objects, as the batched API answers: no value is
  decoded, the first object is rejected with \<^verbatim>\<open>list expected\<close>, and the operation raises
  \<^verbatim>\<open>RetryError\<close>. The batched call decodes an array only when its elements are arrays
  themselves, and then returns a list of lists.
\<close>

theorem batch_of_objects_is_not_decoded:
  "fst (get_drop_campaign_details scripted_ext scripted_gql [''a'', ''b'', ''c''] parse_any
     (start [Inr (ok_response (JList [JDict [], JDict [], JDict []]))] named_templates)) =
   Inl (RetryError (JStr ''Op'')
     [ExceptionContext (InvalidJsonShapeException [] ''list expected'') None]) \<and>
   fst (get_drop_campaign_details scripted_ext scripted_gql [''a'', ''b'', ''c''] parse_any
     (start [Inr (ok_response (JList [JList [JInt 1], JList [], JList [JInt 2, JInt 3]]))]
        named_templates)) =
   Inr [PList [PData (JInt 1)], PList [], PList [PData (JInt 2), PData (JInt 3)]]"
  by (simp add: get_drop_campaign_details_def create_chunks.simps run_defs parse_list_def)

section \<open>Properties of the two drivers\<close>

text \<open>
  C2, as the specification has it, fails. Twenty-one campaigns make two chunks. The
  transport answers the first batch with a JSON object instead of an array: the call
  raises \<^verbatim>\<open>RetryError\<close>, it returns no results, the transport has been called once, and
  the answer prepared for the second chunk is still waiting.
\<close>

theorem non_array_chunk_not_skipped:
  "fst (get_drop_campaign_details scripted_ext scripted_gql (replicate 21 ''c'') parse_any
     (start [Inr (ok_response (JDict [])), Inr (ok_response (JList []))] named_templates)) =
   Inl (RetryError (JStr ''Op'')
       [ExceptionContext
         (InvalidJsonShapeException [] ''Expected batched response, got dict'') None]) \<and>
   world (snd (get_drop_campaign_details scripted_ext scripted_gql (replicate 21 ''c'') parse_any
     (start [Inr (ok_response (JDict [])), Inr (ok_response (JList []))] named_templates))) =
     [Inr (ok_response (JList []))] \<and>
   length (filter is_posted (trace (snd (get_drop_campaign_details scripted_ext scripted_gql
     (replicate 21 ''c'') parse_any
     (start [Inr (ok_response (JDict [])), Inr (ok_response (JList []))] named_templates))))) = 1"
  by (simp add: get_drop_campaign_details_def create_chunks.simps eval_nat_numeral run_defs)


text \<open>
  C2, amended. In the loop over the chunks of \<^verbatim>\<open>get_drop_campaign_details\<close>, at any chunk
  and whatever was gathered before: if the transport answers this chunk's batch with a
  response that passes \<^verbatim>\<open>raise_for_status\<close> and decodes to something that is not an array,
  then (with at least one attempt allowed) the batched call ends after that one attempt
  and the operation raises \<^verbatim>\<open>RetryError\<close> with the \<^verbatim>\<open>InvalidJsonShapeException\<close>. It returns
  nothing of what it had gathered, and it issues no request for the chunks that remain:
  after the copies for this chunk, the run consists of the one attempt and three log
  messages.
\<close>

theorem non_array_chunk_raises:
  assumes "build_batch self chunk [] s = (json_data, s1)"
    and "getitem (GQLOperations s1 DropCampaignDetails) ''operationName'' = Inr name"
    and "post_request self (url ext) (content s1 (ReqList json_data)) (headers ext self)
           (world s1) = (Inr response, w)"
    and "raise_for_status response = None"
    and "json response = Inr v"
    and "\<not> isinstance_list v"
    and "1 \<le> attempts (attempt_strategy self)"
  shows "drop_campaign_chunks ext self parse (chunk # chunks) result_list s =
     (Inl (RetryError name [ExceptionContext
        (InvalidJsonShapeException [] (''Expected batched response, got '' @ type_name v))
        None]),
      s1\<lparr>world := w, trace := trace s1 @
        [AttemptCalled, Posted (ReqList json_data) (content s1 (ReqList json_data)),
         Logged (LogData (content s1 (ReqList json_data)) (status_code response)
           (response_text response)),
         Logged (LogCannotRetry (InvalidJsonShapeException []
           (''Expected batched response, got '' @ type_name v))),
         Logged (LogUnable name 1)]\<rparr>)"
  using assms(1,2)
    make_attempts_rejects_non_array [OF assms(3-7), of "\<lambda>v. parse_list parse v"]
  by (simp add: post_gql_request_batch_def handle_result_def emit_def)

theorem non_array_chunk_raises_witness:
  "drop_campaign_chunks scripted_ext scripted_gql parse_any [[''a''], [''b'']] []
     (start [Inr (ok_response (JDict [])), Inr (ok_response (JList []))] named_templates) =
   (Inl (RetryError (JStr ''Op'') [ExceptionContext
      (InvalidJsonShapeException [] ''Expected batched response, got dict'') None]),
    (start [Inr (ok_response (JDict [])), Inr (ok_response (JList []))] named_templates)
      \<lparr>copies := (\<lambda>n. [])(0 := [(''operationName'', JStr ''Op''),
           (''variables'', JDict [(''dropID'', JStr ''a''), (''channelLogin'', JStr ''42'')])]),
        next_copy := 1,
        world := [Inr (ok_response (JList []))],
        trace := [AttemptCalled,
          Posted (ReqList [Copy 0]) (JList [JDict [(''operationName'', JStr ''Op''),
            (''variables'', JDict [(''dropID'', JStr ''a''), (''channelLogin'', JStr ''42'')])]]),
          Logged (LogData (JList [JDict [(''operationName'', JStr ''Op''),
            (''variables'', JDict [(''dropID'', JStr ''a''), (''channelLogin'', JStr ''42'')])]])
            200 []),
          Logged (LogCannotRetry
            (InvalidJsonShapeException [] ''Expected batched response, got dict'')),
          Logged (LogUnable (JStr ''Op'') 1)]\<rparr>)"
  using non_array_chunk_raises
    [of scripted_gql "[''a'']"
      "start [Inr (ok_response (JDict [])), Inr (ok_response (JList []))] named_templates"
      "[Copy 0]"
      "(start [Inr (ok_response (JDict [])), Inr (ok_response (JList []))] named_templates)
        \<lparr>copies := (\<lambda>n. [])(0 := [(''operationName'', JStr ''Op''),
           (''variables'', JDict [(''dropID'', JStr ''a''), (''channelLogin'', JStr ''42'')])]),
        next_copy := 1\<rparr>"
      "JStr ''Op''" scripted_ext "ok_response (JDict [])" "[Inr (ok_response (JList []))]"
      "JDict []" parse_any "[[''b'']]" "[]"]
  by (simp add: deepcopy_def setitem_def getitem_def scripted_ext_def scripted_gql_def
      ok_response_def named_templates_def start_def next_answer_def headers_def)

text \<open>
  C3, as the specification has it, fails. The first page arrives and announces a next
  page; for the second page both attempts fail. The call does not return the empty list:
  it raises \<^verbatim>\<open>RetryError\<close> with the errors of the two attempts.
\<close>

theorem failed_page_not_empty_list:
  "fst (channel_follows 3 scripted_ext scripted_gql 100 ''ASC'' page_of
     (start [Inr (ok_response (JBool True))] named_templates)) =
   Some (Inl (RetryError (JStr ''Op'')
     [ExceptionContext (RequestException ''ConnectionError'') (Some ''Traceback''),
      ExceptionContext (RequestException ''ConnectionError'') (Some ''Traceback'')])) \<and>
   fst (channel_follows 3 scripted_ext scripted_gql 100 ''ASC'' page_of
     (start [Inr (ok_response (JBool True))] named_templates)) \<noteq> Some (Inr [])"
  by (simp add: channel_follows_def eval_nat_numeral run_defs page_of_def)


text \<open>
  C3, amended. In the loop of \<^verbatim>\<open>channel_follows\<close>, at any page and whatever was gathered
  before: if the execution of the page fails, that is \<^verbatim>\<open>make_attempts\<close> ends in an
  \<^verbatim>\<open>ErrorResult\<close>, the pagination ends there and the operation raises \<^verbatim>\<open>RetryError\<close> with the
  errors of that page; it returns no list, neither the empty one nor the follows gathered
  so far. It returns the empty list in place of the follows gathered so far when the
  call for a page succeeds and the parse callback has produced \<^verbatim>\<open>None\<close>.
\<close>

theorem failed_page_raises:
  assumes "setitem_in_variables json_data ''cursor'' (JStr last_cursor) s = (None, s1)"
    and "getitem (GQLOperations s1 ChannelFollows) ''operationName'' = Inr name"
  shows "(fst (make_attempts (attempt_strategy self)
              (post_gql_request ext self (ReqDict json_data) parse) validate_response
              is_recoverable_error (error_context (format_exc ext)) s1) = Inr (ErrorResult errs) \<longrightarrow>
          channel_follows_loop (Suc fuel) ext self json_data parse last_cursor follows s =
            (Some (Inl (RetryError name errs)),
             emit (Logged (LogUnable name (length errs)))
               (snd (make_attempts (attempt_strategy self)
                 (post_gql_request ext self (ReqDict json_data) parse) validate_response
                 is_recoverable_error (error_context (format_exc ext)) s1)))) \<and>
         (fst (post_gql_request_single ext self name json_data parse s1) = Inr PNone \<longrightarrow>
          channel_follows_loop (Suc fuel) ext self json_data parse last_cursor follows s =
            (Some (Inr []),
             emit (Logged LogUnableFollowers)
               (snd (post_gql_request_single ext self name json_data parse s1))))"
  using assms
  by (auto simp: post_gql_request_single_def handle_result_def split: prod.splits)


theorem failed_page_raises_witness:
  "fst (channel_follows_loop (Suc 0) scripted_ext scripted_gql (Copy 0) page_of ''c1'' [''alice'']
     (follows_start [])) =
     Some (Inl (RetryError (JStr ''Op'')
       [ExceptionContext (RequestException ''ConnectionError'') (Some ''Traceback''),
        ExceptionContext (RequestException ''ConnectionError'') (Some ''Traceback'')])) \<and>
   fst (channel_follows_loop (Suc 0) scripted_ext scripted_gql (Copy 0) page_of ''c1'' [''alice'']
     (follows_start [Inr (ok_response JNull)])) = Some (Inr [])"
  using failed_page_raises
    [of "Copy 0" "''c1''" "follows_start []"
      "snd (setitem_in_variables (Copy 0) ''cursor'' (JStr ''c1'') (follows_start []))"
      "JStr ''Op''" scripted_gql scripted_ext page_of
      "[ExceptionContext (RequestException ''ConnectionError'') (Some ''Traceback''),
        ExceptionContext (RequestException ''ConnectionError'') (Some ''Traceback'')]"
      0 "[''alice'']"]
    failed_page_raises
    [of "Copy 0" "''c1''" "follows_start [Inr (ok_response JNull)]"
      "snd (setitem_in_variables (Copy 0) ''cursor'' (JStr ''c1'')
         (follows_start [Inr (ok_response JNull)]))"
      "JStr ''Op''" scripted_gql scripted_ext page_of "[]" 0 "[''alice'']"]
  by (simp add: run_defs follows_start_def page_of_def)

section \<open>Properties of the operations: the shared templates\<close>

lemma dict_get_dict_set [simp]: "dict_get (dict_set d k v) k = Some v"
  by (induction d) auto

lemma dict_set_dict_set [simp]: "dict_set (dict_set d k v) k v' = dict_set d k v'"
  by (induction d) auto
















lemma single_frame:
  "copies (snd (post_gql_request_single ext self name r parse cur)) = copies cur"
  "next_copy (snd (post_gql_request_single ext self name r parse cur)) = next_copy cur"
  using adds_onlyD(2,3) [OF post_gql_request_single_adds_only [of r cur ext self name parse]]
  by simp_all




lemma fill_and_post_next [simp]:
  "next_copy (snd (fill_and_post ext self t' r v parse cur)) = next_copy cur"
  by (simp add: fill_and_post_def Let_def single_frame setitem_def split: sum.splits)
     (cases r; simp)

lemma snd_discard [simp]: "snd (discard c) = snd c"
  by (simp add: discard_def split: prod.splits sum.splits)


lemma deepcopy_next [simp]: "next_copy (snd (deepcopy r s)) = Suc (next_copy s)"
  by (simp add: deepcopy_def)

lemma token_next [simp]: "next_copy (snd (secrets_token_hex ext k s)) = next_copy s"
  by (simp add: secrets_token_hex_def on_world_def emit_def split: prod.splits)

lemma token_fst [simp]: "fst (secrets_token_hex ext k s) = fst (token_hex ext k (world s))"
  by (simp add: secrets_token_hex_def on_world_def emit_def split: prod.splits)

lemma deepcopy_world [simp]: "world (snd (deepcopy r s)) = world s"
  by (simp add: deepcopy_def)




lemma setitem_in_variables_frame [simp]:
  "next_copy (snd (setitem_in_variables r k v cur)) = next_copy cur"
  by (cases r) (simp_all add: setitem_in_variables_def setitem_def split: option.splits json.splits)



















end
